theory Spec2Isabelle
  imports Complex_Main
begin

section \<open>The statistics module \<^verbatim>\<open>explorer/stats.py\<close>\<close>

text \<open>
  The module fits a distribution family of the statistics library to a sample and draws
  as many variates from the fitted family as the sample has values. The library itself
  (\<^verbatim>\<open>scipy.stats\<close>) is not part of the repository: its two routines the module calls,
  \<^verbatim>\<open>fit\<close> and \<^verbatim>\<open>rvs\<close>, are parameters of the model. Array elements and parameters are
  idealised as real numbers; an array is the list of its elements.
\<close>

subsection \<open>Exceptions, logging, the random source\<close>

text \<open>
  A Python exception is a value: the class and the message (for \<^verbatim>\<open>KeyError\<close>, the key).
  \<open>OtherError\<close> carries the name of any class that is neither of the four named ones
  nor a subclass of \<^verbatim>\<open>KeyError\<close> or \<^verbatim>\<open>AttributeError\<close>.
\<close>

datatype exn =
    KeyError string
  | AttributeError string
  | NotImplementedError string
  | ValueError string
  | OtherError string string

datatype level = ERROR | DEBUG

text \<open>
  The state the module touches: the process-wide pseudo-random source, which \<^verbatim>\<open>rvs\<close>
  advances, and the records handed to the loggers.
\<close>

record 'g world =
  rng :: 'g
  logged :: "(level \<times> string) list"

type_synonym 'a result = "exn + 'a"

subsection \<open>The statistics library\<close>

datatype family =
    Stats_norm
  | Stats_chi2
  | Stats_expon
  | Stats_gamma
  | Stats_logistic
  | Stats_uniform
  | Stats_lognorm
  | Stats_pareto

text \<open>
  \<open>fit lib fam data\<close> is \<^verbatim>\<open>fam.fit(data)\<close>: the tuple of fitted parameters, or the
  exception the library raises. \<open>rvs lib fam shapes loc scale n g\<close> is
  \<^verbatim>\<open>fam.rvs(*shapes, loc=loc, scale=scale, size=n)\<close> run on the random source \<open>g\<close>:
  the array, or the exception, and the random source afterwards.
\<close>

record 'g scipy =
  fit :: "family \<Rightarrow> real list \<Rightarrow> real list result"
  rvs :: "family \<Rightarrow> real list \<Rightarrow> real \<Rightarrow> real \<Rightarrow> nat \<Rightarrow> 'g \<Rightarrow> real list result \<times> 'g"

text \<open>The call of \<^verbatim>\<open>rvs\<close> inside the state of the module: only the random source moves.\<close>

definition call_rvs ::
  "'g scipy \<Rightarrow> family \<Rightarrow> real list \<Rightarrow> real \<Rightarrow> real \<Rightarrow> nat \<Rightarrow> 'g world
    \<Rightarrow> real list result \<times> 'g world" where
  "call_rvs lib fam shapes loc scale n w =
     (case rvs lib fam shapes loc scale n (rng w) of
        (r, g') \<Rightarrow> (r, w\<lparr>rng := g'\<rparr>))"

subsection \<open>Python primitives the module relies on\<close>

text \<open>
  \<^verbatim>\<open>str.capitalize\<close> on ASCII text: the first character in upper case, the others in
  lower case; characters outside the ASCII letters are kept.
\<close>

definition upper_char :: "char \<Rightarrow> char" where
  "upper_char c =
     (let n = (of_char c :: nat) in if 97 \<le> n \<and> n \<le> 122 then char_of (n - 32) else c)"

definition lower_char :: "char \<Rightarrow> char" where
  "lower_char c =
     (let n = (of_char c :: nat) in if 65 \<le> n \<and> n \<le> 90 then char_of (n + 32) else c)"

fun capitalize :: "string \<Rightarrow> string" where
  "capitalize [] = []"
| "capitalize (c # cs) = upper_char c # map lower_char cs"

text \<open>
  Tuple unpacking, \<^verbatim>\<open>loc, scale = t\<close> and \<^verbatim>\<open>a, loc, scale = t\<close>: a tuple of another
  length raises \<^verbatim>\<open>ValueError\<close>, with the message of the interpreter the module names
  (Python 3.10).
\<close>

fun unpack2 :: "real list \<Rightarrow> (real \<times> real) result" where
  "unpack2 [loc, scale] = Inr (loc, scale)"
| "unpack2 [] = Inl (ValueError ''not enough values to unpack (expected 2, got 0)'')"
| "unpack2 [_] = Inl (ValueError ''not enough values to unpack (expected 2, got 1)'')"
| "unpack2 (_ # _ # _ # _) = Inl (ValueError ''too many values to unpack (expected 2)'')"

fun unpack3 :: "real list \<Rightarrow> (real \<times> real \<times> real) result" where
  "unpack3 [a, loc, scale] = Inr (a, loc, scale)"
| "unpack3 [] = Inl (ValueError ''not enough values to unpack (expected 3, got 0)'')"
| "unpack3 [_] = Inl (ValueError ''not enough values to unpack (expected 3, got 1)'')"
| "unpack3 [_, _] = Inl (ValueError ''not enough values to unpack (expected 3, got 2)'')"
| "unpack3 (_ # _ # _ # _ # _) = Inl (ValueError ''too many values to unpack (expected 3)'')"

subsection \<open>\<^verbatim>\<open>DISTRIBUTIONS\<close> and \<^verbatim>\<open>get_params\<close>\<close>

definition DISTRIBUTIONS :: "(string \<times> family) list" where
  "DISTRIBUTIONS =
     [(''normal'', Stats_norm),
      (''chi2'', Stats_chi2),
      (''exponential'', Stats_expon),
      (''gamma'', Stats_gamma),
      (''logistic'', Stats_logistic),
      (''uniform'', Stats_uniform)]"

text \<open>
  The body of the \<^verbatim>\<open>try\<close>: \<^verbatim>\<open>DISTRIBUTIONS[distribution].fit(data)\<close>. A missing key
  raises \<^verbatim>\<open>KeyError\<close> before the library is reached.
\<close>

definition get_params_try :: "'g scipy \<Rightarrow> real list \<Rightarrow> string \<Rightarrow> real list result" where
  "get_params_try lib data distribution =
     (case map_of DISTRIBUTIONS distribution of
        None \<Rightarrow> Inl (KeyError distribution)
      | Some fam \<Rightarrow> fit lib fam data)"

text \<open>
  The handler takes \<^verbatim>\<open>AttributeError\<close> only: it logs the message and raises the same
  exception again. Every other exception leaves \<^verbatim>\<open>get_params\<close> as it is.
\<close>

definition get_params ::
  "'g scipy \<Rightarrow> real list \<Rightarrow> string \<Rightarrow> 'g world \<Rightarrow> real list result \<times> 'g world" where
  "get_params lib data distribution w =
     (case get_params_try lib data distribution of
        Inl (AttributeError m) \<Rightarrow>
          (let msg = capitalize distribution @ '' has no fit attribute.''
           in (Inl (AttributeError m), w\<lparr>logged := logged w @ [(ERROR, msg)]\<rparr>))
      | r \<Rightarrow> (r, w))"

subsection \<open>The random data generators\<close>

type_synonym 'g generator =
  "'g scipy \<Rightarrow> real list \<Rightarrow> 'g world \<Rightarrow> real list result \<times> 'g world"

definition normal :: "'g generator" where
  "normal lib data w =
     (case get_params lib data ''normal'' w of
        (Inl e, w') \<Rightarrow> (Inl e, w')
      | (Inr t, w') \<Rightarrow>
          (case unpack2 t of
             Inl e \<Rightarrow> (Inl e, w')
           | Inr (loc, scale) \<Rightarrow> call_rvs lib Stats_norm [] loc scale (length data) w'))"

definition chi2 :: "'g generator" where
  "chi2 lib data w =
     (case get_params lib data ''chi2'' w of
        (Inl e, w') \<Rightarrow> (Inl e, w')
      | (Inr t, w') \<Rightarrow>
          (case unpack3 t of
             Inl e \<Rightarrow> (Inl e, w')
           | Inr (a, loc, scale) \<Rightarrow>
               (let df = 2 * a
                in call_rvs lib Stats_chi2 [df] loc scale (length data) w')))"

definition exponential :: "'g generator" where
  "exponential lib data w =
     (case get_params lib data ''exponential'' w of
        (Inl e, w') \<Rightarrow> (Inl e, w')
      | (Inr t, w') \<Rightarrow>
          (case unpack2 t of
             Inl e \<Rightarrow> (Inl e, w')
           | Inr (loc, scale) \<Rightarrow> call_rvs lib Stats_expon [] loc scale (length data) w'))"

definition gamma :: "'g generator" where
  "gamma lib data w =
     (case get_params lib data ''gamma'' w of
        (Inl e, w') \<Rightarrow> (Inl e, w')
      | (Inr t, w') \<Rightarrow>
          (case unpack3 t of
             Inl e \<Rightarrow> (Inl e, w')
           | Inr (a, loc, scale) \<Rightarrow> call_rvs lib Stats_gamma [a] loc scale (length data) w'))"

definition logistic :: "'g generator" where
  "logistic lib data w =
     (case get_params lib data ''logistic'' w of
        (Inl e, w') \<Rightarrow> (Inl e, w')
      | (Inr t, w') \<Rightarrow>
          (case unpack2 t of
             Inl e \<Rightarrow> (Inl e, w')
           | Inr (loc, scale) \<Rightarrow> call_rvs lib Stats_logistic [] loc scale (length data) w'))"

definition lognorm :: "'g generator" where
  "lognorm lib data w =
     (case get_params lib data ''lognorm'' w of
        (Inl e, w') \<Rightarrow> (Inl e, w')
      | (Inr t, w') \<Rightarrow>
          (case unpack3 t of
             Inl e \<Rightarrow> (Inl e, w')
           | Inr (s, loc, scale) \<Rightarrow> call_rvs lib Stats_lognorm [s] loc scale (length data) w'))"

definition pareto :: "'g generator" where
  "pareto lib data w =
     (case get_params lib data ''pareto'' w of
        (Inl e, w') \<Rightarrow> (Inl e, w')
      | (Inr t, w') \<Rightarrow>
          (case unpack3 t of
             Inl e \<Rightarrow> (Inl e, w')
           | Inr (b, loc, scale) \<Rightarrow> call_rvs lib Stats_pareto [b] loc scale (length data) w'))"

definition uniform :: "'g generator" where
  "uniform lib data w =
     (case get_params lib data ''uniform'' w of
        (Inl e, w') \<Rightarrow> (Inl e, w')
      | (Inr t, w') \<Rightarrow>
          (case unpack2 t of
             Inl e \<Rightarrow> (Inl e, w')
           | Inr (loc, scale) \<Rightarrow> call_rvs lib Stats_uniform [] loc scale (length data) w'))"

subsection \<open>The class \<^verbatim>\<open>DistGen\<close>\<close>

definition GENERATORS :: "(string \<times> 'g generator) list" where
  "GENERATORS =
     [(''normal'', normal),
      (''chi2'', chi2),
      (''exponential'', exponential),
      (''gamma'', gamma),
      (''logistic'', logistic),
      (''uniform'', uniform)]"

text \<open>
  The body of the \<^verbatim>\<open>try\<close> in \<^verbatim>\<open>__call__\<close>: the lookup in the table and the call of the
  generator found there.
\<close>

definition DistGen_call_try :: "'g scipy \<Rightarrow> real list \<Rightarrow> string \<Rightarrow> 'g world
    \<Rightarrow> real list result \<times> 'g world" where
  "DistGen_call_try lib data distribution w =
     (case map_of GENERATORS distribution of
        None \<Rightarrow> (Inl (KeyError distribution), w)
      | Some gen \<Rightarrow> gen lib data w)"

text \<open>
  The handler takes every \<^verbatim>\<open>KeyError\<close> that leaves the body, from the lookup or from
  inside the generator, logs the message at debug level and raises
  \<^verbatim>\<open>NotImplementedError\<close> with it.
\<close>

definition DistGen_call :: "'g scipy \<Rightarrow> real list \<Rightarrow> string \<Rightarrow> 'g world
    \<Rightarrow> real list result \<times> 'g world" where
  "DistGen_call lib data distribution w =
     (case DistGen_call_try lib data distribution w of
        (Inl (KeyError k), w') \<Rightarrow>
          (let msg = distribution @ '' is not supported.''
           in (Inl (NotImplementedError msg), w'\<lparr>logged := logged w' @ [(DEBUG, msg)]\<rparr>))
      | r \<Rightarrow> r)"

subsection \<open>What the module expects of the library\<close>

text \<open>
  Modelled from the spec: the sampling routine \<^verbatim>\<open>rvs\<close> of the statistics library is
  not in the repository; the specification of the variate generator says of it that the
  output length is always exactly the requested count.
\<close>

definition rvs_sized :: "'g scipy \<Rightarrow> bool" where
  "rvs_sized lib \<longleftrightarrow>
     (\<forall>fam shapes loc scale n g arr g'.
        rvs lib fam shapes loc scale n g = (Inr arr, g') \<longrightarrow> length arr = n)"

text \<open>
  An assumption on the library, for the handler of the dispatcher: its routines work on
  arrays and numbers, and neither raises \<^verbatim>\<open>KeyError\<close>.
\<close>

definition raises_no_KeyError :: "'g scipy \<Rightarrow> bool" where
  "raises_no_KeyError lib \<longleftrightarrow>
     (\<forall>fam data k. fit lib fam data \<noteq> Inl (KeyError k)) \<and>
     (\<forall>fam shapes loc scale n g k.
        fst (rvs lib fam shapes loc scale n g) \<noteq> Inl (KeyError k))"

text \<open>
  Modelled from the spec: the fit and the sampling routine of the uniform family are
  not in the repository. The specification says of the fit that the fitted location is
  \<^verbatim>\<open>min(s)\<close> and the fitted scale is \<^verbatim>\<open>max(s) - min(s)\<close>, and of the sampling routine
  that it draws the requested count of variates and that the values follow the support
  of the family, which for the uniform family with \<open>loc\<close> and \<open>scale\<close> is the interval
  from \<open>loc\<close> to \<open>loc + scale\<close>. Over the real numbers of the model the approximations
  of the specification are equalities.
\<close>

definition uniform_fit_spec :: "'g scipy \<Rightarrow> bool" where
  "uniform_fit_spec lib \<longleftrightarrow>
     (\<forall>s. s \<noteq> [] \<longrightarrow>
        fit lib Stats_uniform s = Inr [Min (set s), Max (set s) - Min (set s)])"

definition uniform_rvs_spec :: "'g scipy \<Rightarrow> bool" where
  "uniform_rvs_spec lib \<longleftrightarrow>
     (\<forall>loc scale n g. 0 \<le> scale \<longrightarrow>
        (\<exists>arr g'. rvs lib Stats_uniform [] loc scale n g = (Inr arr, g') \<and>
           length arr = n \<and> (\<forall>x \<in> set arr. loc \<le> x \<and> x \<le> loc + scale)))"


subsection \<open>A small library for running the module\<close>

text \<open>
  A deterministic stand-in for the library, to run the module on concrete samples. Its
  \<open>fit\<close> rejects the empty sample as the minimum of an empty array is rejected, and
  otherwise returns the least value as location and the range as scale, after a shape
  of one for the families that have a shape. Its \<open>rvs\<close> rejects a negative scale and
  otherwise returns \<open>n\<close> copies of one value that depends on every argument, and counts
  the draws in the random source.
\<close>

definition stub_fit :: "family \<Rightarrow> real list \<Rightarrow> real list result" where
  "stub_fit fam data =
     (case data of
        [] \<Rightarrow>
          Inl (ValueError
            ''zero-size array to reduction operation minimum which has no identity'')
      | x # xs \<Rightarrow>
          (let lo = fold min xs x; hi = fold max xs x
           in if fam \<in> {Stats_norm, Stats_expon, Stats_logistic, Stats_uniform}
              then Inr [lo, hi - lo]
              else Inr [1, lo, hi - lo]))"

definition stub_rvs ::
  "family \<Rightarrow> real list \<Rightarrow> real \<Rightarrow> real \<Rightarrow> nat \<Rightarrow> nat \<Rightarrow> real list result \<times> nat" where
  "stub_rvs fam shapes loc scale n g =
     (if scale < 0 then (Inl (ValueError ''Domain error in arguments.''), g)
      else (Inr (replicate n (loc + scale * sum_list shapes)), g + n))"

definition stub_stats :: "nat scipy" where
  "stub_stats = \<lparr>fit = stub_fit, rvs = stub_rvs\<rparr>"

definition w0 :: "nat world" where
  "w0 = \<lparr>rng = 0, logged = []\<rparr>"

text \<open>A library whose fit raises \<^verbatim>\<open>KeyError\<close> on every sample.\<close>

definition keyerror_stats :: "nat scipy" where
  "keyerror_stats = \<lparr>fit = (\<lambda>fam data. Inl (KeyError ''boom'')), rvs = stub_rvs\<rparr>"

section \<open>Properties\<close>

subsection \<open>The two tables\<close>

lemma DISTRIBUTIONS_keys:
  "map fst DISTRIBUTIONS =
     [''normal'', ''chi2'', ''exponential'', ''gamma'', ''logistic'', ''uniform'']"
  by (simp add: DISTRIBUTIONS_def)

lemma GENERATORS_keys:
  "map fst (GENERATORS :: (string \<times> 'g generator) list) =
     [''normal'', ''chi2'', ''exponential'', ''gamma'', ''logistic'', ''uniform'']"
  by (simp add: GENERATORS_def)

lemma GENERATORS_distinct:
  "distinct (map fst (GENERATORS :: (string \<times> 'g generator) list))"
  by (simp add: GENERATORS_keys)

lemma GENERATORS_lookup:
  "(d, gen) \<in> set GENERATORS \<Longrightarrow> map_of GENERATORS d = Some gen"
  by (rule map_of_is_SomeI [OF GENERATORS_distinct])

text \<open>
  Claim C7. The keys of \<^verbatim>\<open>DISTRIBUTIONS\<close>, the names a family can be fitted for, are
  the keys of the dispatch table of \<^verbatim>\<open>DistGen\<close>, the names a generator is registered for:
  every name in one table is in the other.
\<close>

theorem registry_keys_eq_generator_keys:
  "dom (map_of DISTRIBUTIONS) = dom (map_of (GENERATORS :: (string \<times> 'g generator) list))"
  by (simp only: dom_map_of_conv_image_fst set_map [symmetric] DISTRIBUTIONS_keys GENERATORS_keys)

text \<open>
  Claim C1. Of the eight names, \<^verbatim>\<open>lognorm\<close> and \<^verbatim>\<open>pareto\<close> are in neither table,
  although the module defines a generator for each: on every sample and with every
  library the dispatcher answers them with \<^verbatim>\<open>NotImplementedError\<close> and returns no
  array.
\<close>

theorem lognorm_pareto_not_registered:
  "map_of DISTRIBUTIONS ''lognorm'' = None \<and>
   map_of DISTRIBUTIONS ''pareto'' = None \<and>
   map_of (GENERATORS :: (string \<times> 'g generator) list) ''lognorm'' = None \<and>
   map_of (GENERATORS :: (string \<times> 'g generator) list) ''pareto'' = None \<and>
   DistGen_call (lib :: 'g scipy) data ''lognorm'' w =
     (Inl (NotImplementedError ''lognorm is not supported.''),
      w\<lparr>logged := logged w @ [(DEBUG, ''lognorm is not supported.'')]\<rparr>) \<and>
   DistGen_call lib data ''pareto'' w =
     (Inl (NotImplementedError ''pareto is not supported.''),
      w\<lparr>logged := logged w @ [(DEBUG, ''pareto is not supported.'')]\<rparr>)"
  by (simp add: DISTRIBUTIONS_def GENERATORS_def DistGen_call_def DistGen_call_try_def Let_def)

subsection \<open>Fitting\<close>

lemma get_params_registered:
  "map_of DISTRIBUTIONS d = Some fam \<Longrightarrow>
   get_params lib data d w =
     (case fit lib fam data of
        Inl (AttributeError m) \<Rightarrow>
          (Inl (AttributeError m),
           w\<lparr>logged := logged w @ [(ERROR, capitalize d @ '' has no fit attribute.'')]\<rparr>)
      | r \<Rightarrow> (r, w))"
  by (simp add: get_params_def get_params_try_def Let_def split: sum.splits exn.splits)

lemma get_params_no_KeyError:
  "raises_no_KeyError lib \<Longrightarrow> map_of DISTRIBUTIONS d = Some fam \<Longrightarrow>
   fst (get_params lib data d w) \<noteq> Inl (KeyError k)"
  by (auto simp: get_params_registered raises_no_KeyError_def split: sum.splits exn.splits)

text \<open>
  The handler at work: a fit that raises \<^verbatim>\<open>AttributeError\<close> leaves one record in the
  log, and the exception goes on to the caller.
\<close>

lemma capitalize_normal: "capitalize ''normal'' = ''Normal''"
  by code_simp

lemma get_params_logs_AttributeError:
  "get_params \<lparr>fit = (\<lambda>fam data. Inl (AttributeError ''fit'')), rvs = stub_rvs\<rparr>
       [1, 2] ''normal'' w0 =
     (Inl (AttributeError ''fit''),
      \<lparr>rng = 0, logged = [(ERROR, ''Normal has no fit attribute.'')]\<rparr>)"
  by (simp add: get_params_def get_params_try_def DISTRIBUTIONS_def Let_def w0_def
      capitalize_normal del: capitalize.simps)

text \<open>
  Claim C9. Called directly, \<^verbatim>\<open>lognorm\<close> and \<^verbatim>\<open>pareto\<close> raise \<^verbatim>\<open>KeyError\<close> on every
  sample: \<^verbatim>\<open>get_params\<close> indexes \<^verbatim>\<open>DISTRIBUTIONS\<close> with a key that is not there, its
  handler does not take \<^verbatim>\<open>KeyError\<close>, and the library is never reached.
\<close>

theorem lognorm_pareto_KeyError:
  "lognorm lib data w = (Inl (KeyError ''lognorm''), w) \<and>
   pareto lib data w = (Inl (KeyError ''pareto''), w)"
  by (simp add: lognorm_def pareto_def get_params_def get_params_try_def DISTRIBUTIONS_def)

text \<open>
  Claim C3, as the module has it. When the fit routine of a registered family raises,
  \<^verbatim>\<open>get_params\<close> raises that same exception, unwrapped: there is no \<^verbatim>\<open>FitError\<close>. An
  \<^verbatim>\<open>AttributeError\<close> is logged first, with a message that names the capitalised
  distribution; nothing else is logged, the random source is untouched, and no failure
  becomes a result.
\<close>

theorem get_params_reraises_fit_error:
  "map_of DISTRIBUTIONS d = Some fam \<Longrightarrow> fit lib fam data = Inl e \<Longrightarrow>
   get_params lib data d w =
     (Inl e,
      if (\<exists>m. e = AttributeError m)
      then w\<lparr>logged := logged w @ [(ERROR, capitalize d @ '' has no fit attribute.'')]\<rparr>
      else w)"
  by (cases e) (simp_all add: get_params_registered)

theorem get_params_reraises_fit_error_witness:
  "map_of DISTRIBUTIONS ''exponential'' = Some Stats_expon \<and>
   fit stub_stats Stats_expon [] =
     Inl (ValueError ''zero-size array to reduction operation minimum which has no identity'') \<and>
   get_params stub_stats [] ''exponential'' w0 =
     (Inl (ValueError ''zero-size array to reduction operation minimum which has no identity''),
      w0)"
proof -
  have h1: "map_of DISTRIBUTIONS ''exponential'' = Some Stats_expon"
    by (simp add: DISTRIBUTIONS_def)
  have h2: "fit stub_stats Stats_expon [] =
      Inl (ValueError ''zero-size array to reduction operation minimum which has no identity'')"
    by (simp add: stub_stats_def stub_fit_def)
  show ?thesis
    using h1 h2 get_params_reraises_fit_error [OF h1 h2, of w0] by simp
qed

text \<open>
  Claim C3, as the specification has it, fails: the fit of the uniform family to the
  empty sample raises \<^verbatim>\<open>ValueError\<close>, and \<^verbatim>\<open>get_params\<close> raises that \<^verbatim>\<open>ValueError\<close> with
  the message of the library. A \<^verbatim>\<open>FitError\<close> that names the distribution would be
  \<open>OtherError ''FitError'' m\<close> with \<open>''uniform''\<close> in \<open>m\<close>.
\<close>

theorem get_params_ValueError_unwrapped:
  "get_params stub_stats [] ''uniform'' w0 =
     (Inl (ValueError ''zero-size array to reduction operation minimum which has no identity''),
      w0)"
  by (simp add: get_params_def get_params_try_def DISTRIBUTIONS_def stub_stats_def stub_fit_def)

subsection \<open>The generators\<close>

lemma call_rvs_length:
  assumes sized: "rvs_sized lib"
    and call: "call_rvs lib fam shapes loc scale n w = (Inr arr, w')"
  shows "length arr = n"
proof -
  obtain r g' where r: "rvs lib fam shapes loc scale n (rng w) = (r, g')"
    by (cases "rvs lib fam shapes loc scale n (rng w)")
  with call have "r = Inr arr"
    by (simp add: call_rvs_def)
  with r sized show ?thesis
    unfolding rvs_sized_def by blast
qed

lemma call_rvs_no_KeyError:
  "raises_no_KeyError lib \<Longrightarrow> fst (call_rvs lib fam shapes loc scale n w) \<noteq> Inl (KeyError k)"
  by (auto simp: raises_no_KeyError_def call_rvs_def split: prod.splits dest: fstI)

lemma unpack2_no_KeyError: "unpack2 t \<noteq> Inl (KeyError k)"
  by (cases t rule: unpack2.cases) simp_all

lemma unpack3_no_KeyError: "unpack3 t \<noteq> Inl (KeyError k)"
  by (cases t rule: unpack3.cases) simp_all

lemma generator_entry:
  "(d, gen) \<in> set GENERATORS \<Longrightarrow>
     gen = normal \<or> gen = chi2 \<or> gen = exponential \<or> gen = gamma \<or>
     gen = logistic \<or> gen = uniform"
  unfolding GENERATORS_def by (simp only: list.set insert_iff empty_iff simp_thms prod.inject) blast

lemma normal_length:
  "rvs_sized lib \<Longrightarrow> normal lib data w = (Inr arr, w') \<Longrightarrow> length arr = length data"
  by (auto simp: normal_def split: prod.splits sum.splits dest: call_rvs_length)

lemma chi2_length:
  "rvs_sized lib \<Longrightarrow> chi2 lib data w = (Inr arr, w') \<Longrightarrow> length arr = length data"
  by (auto simp: chi2_def Let_def split: prod.splits sum.splits dest: call_rvs_length)

lemma exponential_length:
  "rvs_sized lib \<Longrightarrow> exponential lib data w = (Inr arr, w') \<Longrightarrow> length arr = length data"
  by (auto simp: exponential_def split: prod.splits sum.splits dest: call_rvs_length)

lemma gamma_length:
  "rvs_sized lib \<Longrightarrow> gamma lib data w = (Inr arr, w') \<Longrightarrow> length arr = length data"
  by (auto simp: gamma_def split: prod.splits sum.splits dest: call_rvs_length)

lemma logistic_length:
  "rvs_sized lib \<Longrightarrow> logistic lib data w = (Inr arr, w') \<Longrightarrow> length arr = length data"
  by (auto simp: logistic_def split: prod.splits sum.splits dest: call_rvs_length)

lemma uniform_length:
  "rvs_sized lib \<Longrightarrow> uniform lib data w = (Inr arr, w') \<Longrightarrow> length arr = length data"
  by (auto simp: uniform_def split: prod.splits sum.splits dest: call_rvs_length)

lemma generator_length:
  assumes "(d, gen) \<in> set GENERATORS" and "rvs_sized lib"
    and "gen lib data w = (Inr arr, w')"
  shows "length arr = length data"
  using generator_entry [OF assms(1)] assms(2,3)
  by (elim disjE)
    (simp_all add: normal_length chi2_length exponential_length gamma_length
      logistic_length uniform_length)

lemma normal_no_KeyError:
  "raises_no_KeyError lib \<Longrightarrow> fst (normal lib data w) \<noteq> Inl (KeyError k)"
  using get_params_no_KeyError [of lib "''normal''" Stats_norm data w k]
  by (auto simp: normal_def DISTRIBUTIONS_def unpack2_no_KeyError call_rvs_no_KeyError
      split: prod.splits sum.splits)

lemma chi2_no_KeyError:
  "raises_no_KeyError lib \<Longrightarrow> fst (chi2 lib data w) \<noteq> Inl (KeyError k)"
  using get_params_no_KeyError [of lib "''chi2''" Stats_chi2 data w k]
  by (auto simp: chi2_def Let_def DISTRIBUTIONS_def unpack3_no_KeyError call_rvs_no_KeyError
      split: prod.splits sum.splits)

lemma exponential_no_KeyError:
  "raises_no_KeyError lib \<Longrightarrow> fst (exponential lib data w) \<noteq> Inl (KeyError k)"
  using get_params_no_KeyError [of lib "''exponential''" Stats_expon data w k]
  by (auto simp: exponential_def DISTRIBUTIONS_def unpack2_no_KeyError call_rvs_no_KeyError
      split: prod.splits sum.splits)

lemma gamma_no_KeyError:
  "raises_no_KeyError lib \<Longrightarrow> fst (gamma lib data w) \<noteq> Inl (KeyError k)"
  using get_params_no_KeyError [of lib "''gamma''" Stats_gamma data w k]
  by (auto simp: gamma_def DISTRIBUTIONS_def unpack3_no_KeyError call_rvs_no_KeyError
      split: prod.splits sum.splits)

lemma logistic_no_KeyError:
  "raises_no_KeyError lib \<Longrightarrow> fst (logistic lib data w) \<noteq> Inl (KeyError k)"
  using get_params_no_KeyError [of lib "''logistic''" Stats_logistic data w k]
  by (auto simp: logistic_def DISTRIBUTIONS_def unpack2_no_KeyError call_rvs_no_KeyError
      split: prod.splits sum.splits)

lemma uniform_no_KeyError:
  "raises_no_KeyError lib \<Longrightarrow> fst (uniform lib data w) \<noteq> Inl (KeyError k)"
  using get_params_no_KeyError [of lib "''uniform''" Stats_uniform data w k]
  by (auto simp: uniform_def DISTRIBUTIONS_def unpack2_no_KeyError call_rvs_no_KeyError
      split: prod.splits sum.splits)

lemma generator_no_KeyError:
  assumes "(d, gen) \<in> set GENERATORS" and "raises_no_KeyError lib"
  shows "fst (gen lib data w) \<noteq> Inl (KeyError k)"
  using generator_entry [OF assms(1)] assms(2)
  by (elim disjE)
    (simp_all add: normal_no_KeyError chi2_no_KeyError exponential_no_KeyError
      gamma_no_KeyError logistic_no_KeyError uniform_no_KeyError)


lemma stub_rvs_sized: "rvs_sized stub_stats"
  by (simp add: rvs_sized_def stub_stats_def stub_rvs_def split: if_splits)

lemma stub_raises_no_KeyError: "raises_no_KeyError stub_stats"
  by (simp add: raises_no_KeyError_def stub_stats_def stub_rvs_def stub_fit_def Let_def
      split: list.splits)

text \<open>
  Claim C2. The chi-squared generator does not pass the fitted shape on as it is: when
  the fit of the chi-squared family returns \<open>(a, loc, scale)\<close>, the sampling call gets
  \<open>df = 2 * a\<close>, with \<open>loc\<close>, \<open>scale\<close> and the length of the sample. The generators of
  the other families with a shape (\<^verbatim>\<open>gamma\<close>, \<^verbatim>\<open>lognorm\<close>, \<^verbatim>\<open>pareto\<close>) pass theirs
  unchanged.
\<close>

theorem chi2_doubles_fitted_shape:
  "fit lib Stats_chi2 data = Inr [a, loc, scale] \<Longrightarrow>
   chi2 lib data w = call_rvs lib Stats_chi2 [2 * a] loc scale (length data) w"
  by (simp add: chi2_def get_params_def get_params_try_def DISTRIBUTIONS_def)

theorem chi2_doubles_fitted_shape_witness:
  "fit stub_stats Stats_chi2 [1, 2, 3] = Inr [1, 1, 2] \<and>
   chi2 stub_stats [1, 2, 3] w0 = call_rvs stub_stats Stats_chi2 [2 * 1] 1 2 (length [1, 2, 3 :: real]) w0 \<and>
   call_rvs stub_stats Stats_chi2 [2 * 1] 1 2 (length [1, 2, 3 :: real]) w0 =
     (Inr [5, 5, 5], \<lparr>rng = 3, logged = []\<rparr>)"
proof -
  have h: "fit stub_stats Stats_chi2 [1, 2, 3] = Inr [1, 1, 2]"
    by (simp add: stub_stats_def stub_fit_def)
  have r: "call_rvs stub_stats Stats_chi2 [2 * 1] 1 2 (length [1, 2, 3 :: real]) w0 =
     (Inr [5, 5, 5], \<lparr>rng = 3, logged = []\<rparr>)"
    by (simp add: call_rvs_def stub_stats_def stub_rvs_def w0_def numeral_3_eq_3)
  show ?thesis
    using h r chi2_doubles_fitted_shape [OF h, of w0] by simp
qed

subsection \<open>The dispatcher\<close>

lemma DistGen_call_registered:
  assumes "(d, gen) \<in> set GENERATORS" and "\<And>k. fst (gen lib data w) \<noteq> Inl (KeyError k)"
  shows "DistGen_call lib data d w = gen lib data w"
proof -
  have "DistGen_call_try lib data d w = gen lib data w"
    by (simp add: DistGen_call_try_def GENERATORS_lookup [OF assms(1)])
  with assms(2) show ?thesis
    by (cases "gen lib data w") (auto simp: DistGen_call_def split: sum.splits exn.splits)
qed

lemma DistGen_call_without_KeyError:
  "raises_no_KeyError lib \<Longrightarrow> (d, gen) \<in> set GENERATORS \<Longrightarrow>
   DistGen_call lib data d w = gen lib data w"
  by (rule DistGen_call_registered) (simp_all add: generator_no_KeyError)

lemma DistGen_call_lookup:
  "map_of GENERATORS d = Some gen \<Longrightarrow>
   DistGen_call lib data d w =
     (case gen lib data w of
        (Inl (KeyError k), w') \<Rightarrow>
          (Inl (NotImplementedError (d @ '' is not supported.'')),
           w'\<lparr>logged := logged w' @ [(DEBUG, d @ '' is not supported.'')]\<rparr>)
      | r \<Rightarrow> r)"
  unfolding DistGen_call_def DistGen_call_try_def Let_def by simp

lemma GENERATORS_normal: "map_of GENERATORS ''normal'' = Some normal"
  by (simp add: GENERATORS_def)

lemma GENERATORS_chi2: "map_of GENERATORS ''chi2'' = Some chi2"
  by (simp add: GENERATORS_def)

lemma GENERATORS_exponential: "map_of GENERATORS ''exponential'' = Some exponential"
  by (simp add: GENERATORS_def)

lemma GENERATORS_gamma: "map_of GENERATORS ''gamma'' = Some gamma"
  by (simp add: GENERATORS_def)

lemma GENERATORS_logistic: "map_of GENERATORS ''logistic'' = Some logistic"
  by (simp add: GENERATORS_def)

lemma GENERATORS_uniform: "map_of GENERATORS ''uniform'' = Some uniform"
  by (simp add: GENERATORS_def)

lemma DistGen_call_normal:
  "DistGen_call lib data ''normal'' w =
     (case normal lib data w of
        (Inl (KeyError k), w') \<Rightarrow>
          (Inl (NotImplementedError ''normal is not supported.''),
           w'\<lparr>logged := logged w' @ [(DEBUG, ''normal is not supported.'')]\<rparr>)
      | r \<Rightarrow> r)"
  by (simp add: DistGen_call_lookup [OF GENERATORS_normal]
      split: prod.split sum.split exn.split)

lemma DistGen_call_chi2:
  "DistGen_call lib data ''chi2'' w =
     (case chi2 lib data w of
        (Inl (KeyError k), w') \<Rightarrow>
          (Inl (NotImplementedError ''chi2 is not supported.''),
           w'\<lparr>logged := logged w' @ [(DEBUG, ''chi2 is not supported.'')]\<rparr>)
      | r \<Rightarrow> r)"
  by (simp add: DistGen_call_lookup [OF GENERATORS_chi2]
      split: prod.split sum.split exn.split)

lemma DistGen_call_exponential:
  "DistGen_call lib data ''exponential'' w =
     (case exponential lib data w of
        (Inl (KeyError k), w') \<Rightarrow>
          (Inl (NotImplementedError ''exponential is not supported.''),
           w'\<lparr>logged := logged w' @ [(DEBUG, ''exponential is not supported.'')]\<rparr>)
      | r \<Rightarrow> r)"
  by (simp add: DistGen_call_lookup [OF GENERATORS_exponential]
      split: prod.split sum.split exn.split)

lemma DistGen_call_gamma:
  "DistGen_call lib data ''gamma'' w =
     (case gamma lib data w of
        (Inl (KeyError k), w') \<Rightarrow>
          (Inl (NotImplementedError ''gamma is not supported.''),
           w'\<lparr>logged := logged w' @ [(DEBUG, ''gamma is not supported.'')]\<rparr>)
      | r \<Rightarrow> r)"
  by (simp add: DistGen_call_lookup [OF GENERATORS_gamma]
      split: prod.split sum.split exn.split)

lemma DistGen_call_logistic:
  "DistGen_call lib data ''logistic'' w =
     (case logistic lib data w of
        (Inl (KeyError k), w') \<Rightarrow>
          (Inl (NotImplementedError ''logistic is not supported.''),
           w'\<lparr>logged := logged w' @ [(DEBUG, ''logistic is not supported.'')]\<rparr>)
      | r \<Rightarrow> r)"
  by (simp add: DistGen_call_lookup [OF GENERATORS_logistic]
      split: prod.split sum.split exn.split)

lemma DistGen_call_uniform:
  "DistGen_call lib data ''uniform'' w =
     (case uniform lib data w of
        (Inl (KeyError k), w') \<Rightarrow>
          (Inl (NotImplementedError ''uniform is not supported.''),
           w'\<lparr>logged := logged w' @ [(DEBUG, ''uniform is not supported.'')]\<rparr>)
      | r \<Rightarrow> r)"
  by (simp add: DistGen_call_lookup [OF GENERATORS_uniform]
      split: prod.split sum.split exn.split)

text \<open>
  Claim C10, as the class has it. Under each of the six registered names the dispatcher
  calls the module-level generator of that name on the sample, from the same state, and
  returns its outcome with one change only: a \<^verbatim>\<open>KeyError\<close> that leaves the generator is
  logged at debug level and raised again as \<^verbatim>\<open>NotImplementedError\<close> with the message
  \<^verbatim>\<open><name> is not supported.\<close>. Every array, every other exception, the random source
  and the log pass through as the generator left them.
\<close>

theorem DistGen_call_named_generator:
  "DistGen_call lib data ''normal'' w =
     (case normal lib data w of
        (Inl (KeyError k), w') \<Rightarrow>
          (Inl (NotImplementedError ''normal is not supported.''),
           w'\<lparr>logged := logged w' @ [(DEBUG, ''normal is not supported.'')]\<rparr>)
      | r \<Rightarrow> r) \<and>
   DistGen_call lib data ''chi2'' w =
     (case chi2 lib data w of
        (Inl (KeyError k), w') \<Rightarrow>
          (Inl (NotImplementedError ''chi2 is not supported.''),
           w'\<lparr>logged := logged w' @ [(DEBUG, ''chi2 is not supported.'')]\<rparr>)
      | r \<Rightarrow> r) \<and>
   DistGen_call lib data ''exponential'' w =
     (case exponential lib data w of
        (Inl (KeyError k), w') \<Rightarrow>
          (Inl (NotImplementedError ''exponential is not supported.''),
           w'\<lparr>logged := logged w' @ [(DEBUG, ''exponential is not supported.'')]\<rparr>)
      | r \<Rightarrow> r) \<and>
   DistGen_call lib data ''gamma'' w =
     (case gamma lib data w of
        (Inl (KeyError k), w') \<Rightarrow>
          (Inl (NotImplementedError ''gamma is not supported.''),
           w'\<lparr>logged := logged w' @ [(DEBUG, ''gamma is not supported.'')]\<rparr>)
      | r \<Rightarrow> r) \<and>
   DistGen_call lib data ''logistic'' w =
     (case logistic lib data w of
        (Inl (KeyError k), w') \<Rightarrow>
          (Inl (NotImplementedError ''logistic is not supported.''),
           w'\<lparr>logged := logged w' @ [(DEBUG, ''logistic is not supported.'')]\<rparr>)
      | r \<Rightarrow> r) \<and>
   DistGen_call lib data ''uniform'' w =
     (case uniform lib data w of
        (Inl (KeyError k), w') \<Rightarrow>
          (Inl (NotImplementedError ''uniform is not supported.''),
           w'\<lparr>logged := logged w' @ [(DEBUG, ''uniform is not supported.'')]\<rparr>)
      | r \<Rightarrow> r)"
  by (intro conjI)
    (rule DistGen_call_normal DistGen_call_chi2 DistGen_call_exponential DistGen_call_gamma
      DistGen_call_logistic DistGen_call_uniform)+

text \<open>
  Claim C10, as stated, fails: when the fit raises \<^verbatim>\<open>KeyError\<close>, the generator
  \<^verbatim>\<open>gamma\<close> raises that \<^verbatim>\<open>KeyError\<close>, and the dispatcher called with \<^verbatim>\<open>gamma\<close> on the
  same sample raises \<^verbatim>\<open>NotImplementedError\<close> and writes to the log.
\<close>

theorem DistGen_call_rewraps_KeyError:
  "gamma keyerror_stats [1, 2, 3] w0 = (Inl (KeyError ''boom''), w0) \<and>
   DistGen_call keyerror_stats [1, 2, 3] ''gamma'' w0 =
     (Inl (NotImplementedError ''gamma is not supported.''),
      \<lparr>rng = 0, logged = [(DEBUG, ''gamma is not supported.'')]\<rparr>)"
proof -
  have g: "gamma keyerror_stats [1, 2, 3] w0 = (Inl (KeyError ''boom''), w0)"
    by (simp add: gamma_def get_params_def get_params_try_def DISTRIBUTIONS_def
        keyerror_stats_def)
  show ?thesis
    using g DistGen_call_lookup [OF GENERATORS_gamma, of keyerror_stats "[1, 2, 3]" w0]
    by (simp add: w0_def)
qed

text \<open>
  Claim C6. For a name that is not a key of the dispatch table (so for every name
  outside the supported set) and every sample, the dispatcher raises
  \<^verbatim>\<open>NotImplementedError\<close> with the message \<^verbatim>\<open><name> is not supported.\<close>, which holds
  the offending name; the library is not called, no array is returned, and the message
  is logged at debug level.
\<close>

theorem DistGen_call_unsupported:
  "d \<notin> fst ` set (GENERATORS :: (string \<times> 'g generator) list) \<Longrightarrow>
   DistGen_call (lib :: 'g scipy) data d w =
     (Inl (NotImplementedError (d @ '' is not supported.'')),
      w\<lparr>logged := logged w @ [(DEBUG, d @ '' is not supported.'')]\<rparr>)"
  by (simp add: DistGen_call_def DistGen_call_try_def map_of_eq_None_iff [THEN iffD2] Let_def)

theorem DistGen_call_unsupported_witness:
  "''not_a_real_distribution'' \<notin> fst ` set (GENERATORS :: (string \<times> nat generator) list) \<and>
   DistGen_call stub_stats [1, 2, 3] ''not_a_real_distribution'' w0 =
     (Inl (NotImplementedError ''not_a_real_distribution is not supported.''),
      \<lparr>rng = 0, logged = [(DEBUG, ''not_a_real_distribution is not supported.'')]\<rparr>)"
proof -
  have h: "''not_a_real_distribution'' \<notin> fst ` set (GENERATORS :: (string \<times> nat generator) list)"
    by (simp add: GENERATORS_def)
  show ?thesis
    using h DistGen_call_unsupported [OF h, of stub_stats "[1, 2, 3]" w0]
    by (simp add: w0_def)
qed

subsection \<open>The length of the result\<close>

lemma DistGen_call_returned_length:
  assumes "rvs_sized (lib :: 'g scipy)" and "DistGen_call lib data d w = (Inr arr, w')"
  shows "length arr = length data"
proof (cases "map_of GENERATORS d :: 'g generator option")
  case None
  with assms(2) show ?thesis
    by (simp add: DistGen_call_def DistGen_call_try_def Let_def)
next
  case (Some gen)
  then have entry: "(d, gen) \<in> set GENERATORS"
    by (rule map_of_SomeD)
  from Some assms(2) have "gen lib data w = (Inr arr, w')"
    by (cases "gen lib data w")
      (auto simp: DistGen_call_def DistGen_call_try_def Let_def split: sum.splits exn.splits)
  with entry assms(1) show ?thesis
    by (rule generator_length)
qed

text \<open>
  What each registered name returns when the library returns: the array of the sampling
  call, made with the fitted parameters and the length of the sample.
\<close>

lemma normal_returns:
  assumes "fit lib Stats_norm data = Inr [loc, scale]"
    and "rvs lib Stats_norm [] loc scale (length data) (rng w) = (Inr arr, g')"
  shows "DistGen_call lib data ''normal'' w = (Inr arr, w\<lparr>rng := g'\<rparr>)"
  using assms
  by (simp add: DistGen_call_lookup [OF GENERATORS_normal] normal_def get_params_registered
      DISTRIBUTIONS_def call_rvs_def)

lemma chi2_returns:
  assumes "fit lib Stats_chi2 data = Inr [a, loc, scale]"
    and "rvs lib Stats_chi2 [2 * a] loc scale (length data) (rng w) = (Inr arr, g')"
  shows "DistGen_call lib data ''chi2'' w = (Inr arr, w\<lparr>rng := g'\<rparr>)"
  using assms
  by (simp add: DistGen_call_lookup [OF GENERATORS_chi2] chi2_def get_params_registered
      DISTRIBUTIONS_def call_rvs_def)

lemma exponential_returns:
  assumes "fit lib Stats_expon data = Inr [loc, scale]"
    and "rvs lib Stats_expon [] loc scale (length data) (rng w) = (Inr arr, g')"
  shows "DistGen_call lib data ''exponential'' w = (Inr arr, w\<lparr>rng := g'\<rparr>)"
  using assms
  by (simp add: DistGen_call_lookup [OF GENERATORS_exponential] exponential_def
      get_params_registered DISTRIBUTIONS_def call_rvs_def)

lemma gamma_returns:
  assumes "fit lib Stats_gamma data = Inr [a, loc, scale]"
    and "rvs lib Stats_gamma [a] loc scale (length data) (rng w) = (Inr arr, g')"
  shows "DistGen_call lib data ''gamma'' w = (Inr arr, w\<lparr>rng := g'\<rparr>)"
  using assms
  by (simp add: DistGen_call_lookup [OF GENERATORS_gamma] gamma_def get_params_registered
      DISTRIBUTIONS_def call_rvs_def)

lemma logistic_returns:
  assumes "fit lib Stats_logistic data = Inr [loc, scale]"
    and "rvs lib Stats_logistic [] loc scale (length data) (rng w) = (Inr arr, g')"
  shows "DistGen_call lib data ''logistic'' w = (Inr arr, w\<lparr>rng := g'\<rparr>)"
  using assms
  by (simp add: DistGen_call_lookup [OF GENERATORS_logistic] logistic_def
      get_params_registered DISTRIBUTIONS_def call_rvs_def)

text \<open>
  Claim C4. For two of the eight supported names the dispatcher returns no array at
  all, of the length of the sample or of any other: called with \<^verbatim>\<open>lognorm\<close> or
  \<^verbatim>\<open>pareto\<close> it raises, on every sample and with every library, so that
  \<^verbatim>\<open>len(generate(s, d))\<close> has no value there. (Under the six registered names every
  array returned has the length of the sample, by \<open>DistGen_call_returned_length\<close>.)
\<close>

theorem DistGen_call_no_array_lognorm_pareto:
  "fst (DistGen_call lib data ''lognorm'' w) \<noteq> Inr arr \<and>
   fst (DistGen_call lib data ''pareto'' w) \<noteq> Inr arr"
  by (simp add: DistGen_call_def DistGen_call_try_def GENERATORS_def Let_def)

subsection \<open>The uniform scenario\<close>

lemma get_params_uniform:
  "fit lib Stats_uniform data = Inr t \<Longrightarrow> get_params lib data ''uniform'' w = (Inr t, w)"
  by (simp add: get_params_def get_params_try_def DISTRIBUTIONS_def)

lemma uniform_returns:
  assumes "fit lib Stats_uniform data = Inr [loc, scale]"
    and "rvs lib Stats_uniform [] loc scale (length data) (rng w) = (Inr arr, g')"
  shows "DistGen_call lib data ''uniform'' w = (Inr arr, w\<lparr>rng := g'\<rparr>)"
  using assms
  by (simp add: DistGen_call_lookup [OF GENERATORS_uniform] uniform_def get_params_uniform
      call_rvs_def)

lemma stub_uniform_fit_spec: "uniform_fit_spec stub_stats"
  unfolding uniform_fit_spec_def
proof (intro allI impI)
  fix s :: "real list"
  assume "s \<noteq> []"
  then obtain x xs where s: "s = x # xs"
    by (cases s) auto
  show "fit stub_stats Stats_uniform s = Inr [Min (set s), Max (set s) - Min (set s)]"
    unfolding s by (simp add: stub_stats_def stub_fit_def Let_def Min.set_eq_fold Max.set_eq_fold
        del: set_simps)
qed

lemma stub_uniform_rvs_spec: "uniform_rvs_spec stub_stats"
  by (simp add: uniform_rvs_spec_def stub_stats_def stub_rvs_def)

text \<open>
  Claim C8. With a fit and a sampling routine of the uniform family that do what the
  specification says of them, the sample \<^verbatim>\<open>[1, 2, 3, 4, 5]\<close> is fitted to the tuple
  \<open>(loc, scale) = (1, 4)\<close>, that is \<^verbatim>\<open>min(s)\<close> and \<^verbatim>\<open>max(s) - min(s)\<close>, and the
  dispatcher called with \<^verbatim>\<open>uniform\<close> returns an array of five variates, each between
  \<^verbatim>\<open>min(s) = 1\<close> and \<^verbatim>\<open>max(s) = 5\<close>: the generator passes the fitted location and scale
  to the sampling routine unchanged.
\<close>

theorem uniform_scenario:
  assumes "uniform_fit_spec lib" and "uniform_rvs_spec lib"
  shows "get_params lib [1, 2, 3, 4, 5] ''uniform'' w = (Inr [1, 4], w) \<and>
    (\<exists>arr w'. DistGen_call lib [1, 2, 3, 4, 5] ''uniform'' w = (Inr arr, w') \<and>
        length arr = 5 \<and> (\<forall>x \<in> set arr. 1 \<le> x \<and> x \<le> 5))"
proof -
  have "fit lib Stats_uniform [1, 2, 3, 4, 5] =
      Inr [Min (set [1, 2, 3, 4, 5]), Max (set [1, 2, 3, 4, 5]) - Min (set [1, 2, 3, 4, 5])]"
    using assms(1) unfolding uniform_fit_spec_def by blast
  then have f: "fit lib Stats_uniform [1, 2, 3, 4, 5] = Inr [1, 4]"
    by simp
  from assms(2) obtain arr g' where
    r: "rvs lib Stats_uniform [] 1 4 (length [1, 2, 3, 4, 5 :: real]) (rng w) = (Inr arr, g')"
    and n: "length arr = length [1, 2, 3, 4, 5 :: real]"
    and b: "\<forall>x \<in> set arr. 1 \<le> x \<and> x \<le> 1 + 4"
    unfolding uniform_rvs_spec_def by (metis zero_le_numeral)
  have "DistGen_call lib [1, 2, 3, 4, 5] ''uniform'' w = (Inr arr, w\<lparr>rng := g'\<rparr>)"
    using f r by (rule uniform_returns)
  with n b f show ?thesis
    by (auto simp: get_params_uniform)
qed

theorem uniform_scenario_witness:
  "uniform_fit_spec stub_stats \<and> uniform_rvs_spec stub_stats \<and>
   get_params stub_stats [1, 2, 3, 4, 5] ''uniform'' w0 = (Inr [1, 4], w0) \<and>
   DistGen_call stub_stats [1, 2, 3, 4, 5] ''uniform'' w0 =
     (Inr [1, 1, 1, 1, 1], \<lparr>rng = 5, logged = []\<rparr>)"
proof -
  have run: "DistGen_call stub_stats [1, 2, 3, 4, 5] ''uniform'' w0 =
      (Inr [1, 1, 1, 1, 1], \<lparr>rng = 5, logged = []\<rparr>)"
    by (rule trans
        [OF uniform_returns
          [where loc = 1 and scale = 4 and arr = "[1, 1, 1, 1, 1]" and g' = 5]])
      (simp_all add: stub_stats_def stub_fit_def stub_rvs_def w0_def eval_nat_numeral)
  show ?thesis
    using stub_uniform_fit_spec stub_uniform_rvs_spec run
      uniform_scenario [OF stub_uniform_fit_spec stub_uniform_rvs_spec, of w0]
    by simp
qed

subsection \<open>The empty sample\<close>












end
